theory Spec2Isabelle
  imports Complex_Main "HOL-Library.Product_Lexorder" "HOL-Library.Sublist"
begin

section \<open>Values, dates and tables\<close>

text \<open>
  A pandas cell holds a float. The model keeps the four kinds of float the program can
  meet: a finite number, the two infinities (a percentage change from a zero price) and
  NaN, which pandas uses for a missing observation. Finite numbers are exact rationals:
  the rounding of binary floating point is not modelled, and neither is the sign of zero.
\<close>

datatype cell = Num rat | PInf | NInf | NaN

fun fdiv :: "cell \<Rightarrow> cell \<Rightarrow> cell" where
  "fdiv NaN _ = NaN"
| "fdiv _ NaN = NaN"
| "fdiv (Num a) (Num b) =
     (if b = 0 then (if a = 0 then NaN else if 0 < a then PInf else NInf) else Num (a / b))"
| "fdiv (Num a) PInf = Num 0"
| "fdiv (Num a) NInf = Num 0"
| "fdiv PInf (Num b) = (if b < 0 then NInf else PInf)"
| "fdiv NInf (Num b) = (if b < 0 then PInf else NInf)"
| "fdiv PInf PInf = NaN"
| "fdiv PInf NInf = NaN"
| "fdiv NInf PInf = NaN"
| "fdiv NInf NInf = NaN"

fun fsub :: "cell \<Rightarrow> cell \<Rightarrow> cell" where
  "fsub NaN _ = NaN"
| "fsub _ NaN = NaN"
| "fsub (Num a) (Num b) = Num (a - b)"
| "fsub (Num a) PInf = NInf"
| "fsub (Num a) NInf = PInf"
| "fsub PInf (Num b) = PInf"
| "fsub NInf (Num b) = NInf"
| "fsub PInf PInf = NaN"
| "fsub NInf NInf = NaN"
| "fsub PInf NInf = PInf"
| "fsub NInf PInf = NInf"

text \<open>Comparisons with zero; every comparison with NaN is false, except \<open>!=\<close>.\<close>

fun gt0 :: "cell \<Rightarrow> bool" where
  "gt0 (Num a) = (0 < a)"
| "gt0 PInf = True"
| "gt0 _ = False"

fun lt0 :: "cell \<Rightarrow> bool" where
  "lt0 (Num a) = (a < 0)"
| "lt0 NInf = True"
| "lt0 _ = False"

fun eq0 :: "cell \<Rightarrow> bool" where
  "eq0 (Num a) = (a = 0)"
| "eq0 _ = False"

definition notna :: "cell \<Rightarrow> bool" where
  "notna c = (c \<noteq> NaN)"

text \<open>A calendar date: year, month (1 to 12), day. Dates are ordered lexicographically.\<close>

type_synonym date = "nat \<times> nat \<times> nat"

text \<open>
  An index label as \<open>pd.to_datetime\<close> meets it: already a timestamp, or a text still
  to be parsed.
\<close>

datatype label = Timestamp date | Text string

text \<open>
  A DataFrame, row by row: the column names and, for every row, its index label and one
  cell per column. \<open>pd.DataFrame()\<close> is the table with no column and no row.
\<close>

record 'i frame =
  columns :: "string list"
  rows :: "('i \<times> cell list) list"

definition DataFrame :: "'i frame" where
  "DataFrame = \<lparr>columns = [], rows = []\<rparr>"

definition index :: "'i frame \<Rightarrow> 'i list" where
  "index f = map fst (rows f)"

text \<open>\<open>df.empty\<close>: one of the two axes has length 0.\<close>

definition empty_df :: "'i frame \<Rightarrow> bool" where
  "empty_df f = (columns f = [] \<or> rows f = [])"


datatype py_error = KeyError | AttributeError | ProviderError | DateParseError

text \<open>What the program shows to the user, in the order it shows it.\<close>

datatype event =
    St_error string
  | St_info string
  | St_warning string
  | St_title string
  | St_header string
  | St_subheader string
  | St_sidebar_header string
  | St_markdown string
  | St_write string
  | St_line_chart "date frame"
  | St_bar_chart "string frame"
  | St_dataframe "date frame"
  | Download "string list"

text \<open>
  A function that shows things returns what it showed together with its value, or with
  the exception it raised.
\<close>

type_synonym 'a io = "event list \<times> (py_error + 'a)"

definition bind_io :: "'a io \<Rightarrow> ('a \<Rightarrow> 'b io) \<Rightarrow> 'b io" where
  "bind_io m k =
     (case m of
        (ev, Inl e) \<Rightarrow> (ev, Inl e)
      | (ev, Inr x) \<Rightarrow> (case k x of (ev', r) \<Rightarrow> (ev @ ev', r)))"

text \<open>
  Python strings are sequences of code points; the model writes a character outside
  ASCII as its UTF-8 bytes.
\<close>

definition a_acute :: string where "a_acute = [CHR 0xC3, CHR 0xA1]"
definition a_grave :: string where "a_grave = [CHR 0xC3, CHR 0xA0]"
definition a_tilde :: string where "a_tilde = [CHR 0xC3, CHR 0xA3]"
definition c_cedil :: string where "c_cedil = [CHR 0xC3, CHR 0xA7]"
definition e_acute :: string where "e_acute = [CHR 0xC3, CHR 0xA9]"
definition i_acute :: string where "i_acute = [CHR 0xC3, CHR 0xAD]"
definition o_acute :: string where "o_acute = [CHR 0xC3, CHR 0xB3]"
definition o_tilde :: string where "o_tilde = [CHR 0xC3, CHR 0xB5]"
definition apostrophe :: string where "apostrophe = [CHR 0x27]"

section \<open>page_1: loading the tickers and the prices\<close>

definition ARQUIVO_TICKERS :: string where
  "ARQUIVO_TICKERS = ''IBOV.csv''"

definition col_Codigo :: string where
  "col_Codigo = ''C'' @ o_acute @ ''digo''"

definition msg_arquivo_nao_encontrado :: string where
  "msg_arquivo_nao_encontrado =
     ''Erro: O arquivo '' @ apostrophe @ ARQUIVO_TICKERS @ apostrophe @ '' n'' @ a_tilde
       @ ''o foi encontrado.''"

definition msg_certifique_se :: string where
  "msg_certifique_se =
     ''Por favor, certifique-se de que o arquivo est'' @ a_acute
       @ '' na mesma pasta que o seu script Streamlit.''"

text \<open>
  \<open>carregar_tickers_acoes\<close>. The argument is what \<open>pd.read_csv\<close> gives: \<open>None\<close> when
  it raises FileNotFoundError, otherwise the parsed table, each column with its name and
  its items as \<open>str\<close> renders them. A table without the column raises KeyError, which
  the function does not catch.
\<close>

definition carregar_tickers_acoes :: "(string \<times> string list) list option \<Rightarrow> string list io" where
  "carregar_tickers_acoes arquivo =
     (case arquivo of
        None \<Rightarrow> ([St_error msg_arquivo_nao_encontrado, St_info msg_certifique_se], Inr [])
      | Some base_tickers \<Rightarrow>
          (case map_of base_tickers col_Codigo of
             None \<Rightarrow> ([], Inl KeyError)
           | Some tickers \<Rightarrow> ([], Inr (map (\<lambda>item. item @ ''.SA'') tickers))))"

text \<open>
  The provider's answer to \<open>yf.download(..., group_by="ticker")\<close>: the dates, and for
  every symbol it returned (level 0 of the columns) its fields, each one a series over
  those dates.
\<close>

record response =
  r_index :: "date list"
  r_tickers :: "(string \<times> (string \<times> cell list) list) list"

definition levels0 :: "response \<Rightarrow> string list" where
  "levels0 r = map fst (r_tickers r)"

text \<open>\<open>dados_brutos[ticker]['Close']\<close>\<close>

definition get_close :: "response \<Rightarrow> string \<Rightarrow> py_error + cell list" where
  "get_close r ticker =
     (case map_of (r_tickers r) ticker of
        None \<Rightarrow> Inl KeyError
      | Some campos \<Rightarrow> (case map_of campos ''Close'' of None \<Rightarrow> Inl KeyError | Some s \<Rightarrow> Inr s))"

fun position :: "'a \<Rightarrow> 'a list \<Rightarrow> nat option" where
  "position x [] = None"
| "position x (y # ys) = (if x = y then Some 0 else map_option Suc (position x ys))"

text \<open>
  \<open>fechamento[ticker] = serie\<close>, the series being over the dates \<open>idx\<close>. On a table
  without rows the assignment takes the index from the series; a name that is already a
  column is overwritten where it stands, a new one is appended.
\<close>

definition set_column :: "date frame \<Rightarrow> date list \<Rightarrow> string \<Rightarrow> cell list \<Rightarrow> date frame" where
  "set_column f idx name serie =
     (let base = (if rows f = [] then map (\<lambda>d. (d, replicate (length (columns f)) NaN)) idx
                  else rows f)
      in case position name (columns f) of
           Some p \<Rightarrow> \<lparr>columns = columns f,
                      rows = map2 (\<lambda>(d, r) v. (d, r[p := v])) base serie\<rparr>
         | None \<Rightarrow> \<lparr>columns = columns f @ [name],
                    rows = map2 (\<lambda>(d, r) v. (d, r @ [v])) base serie\<rparr>)"

text \<open>The loop of \<open>carregar_dados\<close> over \<open>empresas\<close>.\<close>

fun extrair_fechamento :: "response \<Rightarrow> string list \<Rightarrow> date frame \<Rightarrow> py_error + date frame" where
  "extrair_fechamento r [] fechamento = Inr fechamento"
| "extrair_fechamento r (ticker # empresas) fechamento =
     (if ticker \<in> set (levels0 r)
      then (case get_close r ticker of
              Inl e \<Rightarrow> Inl e
            | Inr serie \<Rightarrow>
                extrair_fechamento r empresas (set_column fechamento (r_index r) ticker serie))
      else extrair_fechamento r empresas fechamento)"

text \<open>
  \<open>carregar_dados\<close>. The provider is a parameter: it answers a list of symbols with a
  response, or fails, and the failure is not caught. The request is recorded as the
  event \<open>Download\<close>.
\<close>

definition carregar_dados ::
  "(string list \<Rightarrow> py_error + response) \<Rightarrow> string list \<Rightarrow> date frame io" where
  "carregar_dados yf_download empresas =
     ([Download empresas],
      (case yf_download empresas of
         Inl e \<Rightarrow> Inl e
       | Inr dados_brutos \<Rightarrow> extrair_fechamento dados_brutos empresas DataFrame))"

text \<open>Every symbol of the response has a Close field.\<close>

definition has_close :: "response \<Rightarrow> bool" where
  "has_close r = list_all (\<lambda>t. \<not> isl (get_close r t)) (levels0 r)"

section \<open>page_1: selection and performance\<close>

text \<open>\<open>dados[lista]\<close>: the named columns, in the order asked; KeyError for an unknown name.\<close>

definition cell_of :: "string list \<Rightarrow> cell list \<Rightarrow> string \<Rightarrow> cell" where
  "cell_of cols r name = (case map_of (zip cols r) name of Some c \<Rightarrow> c | None \<Rightarrow> NaN)"

definition select_columns :: "'i frame \<Rightarrow> string list \<Rightarrow> py_error + 'i frame" where
  "select_columns f names =
     (if set names \<subseteq> set (columns f)
      then Inr \<lparr>columns = names,
                rows = map (\<lambda>(d, r). (d, map (cell_of (columns f) r) names)) (rows f)\<rparr>
      else Inl KeyError)"

text \<open>\<open>dados[acao]\<close>: one column as a series.\<close>

definition serie_de :: "'i frame \<Rightarrow> string \<Rightarrow> cell list" where
  "serie_de f acao = map (\<lambda>(d, r). cell_of (columns f) r acao) (rows f)"

definition column_of :: "'i frame \<Rightarrow> string \<Rightarrow> py_error + cell list" where
  "column_of f acao = (if acao \<in> set (columns f) then Inr (serie_de f acao) else Inl KeyError)"

text \<open>\<open>dados.rename(columns={old: new})\<close>\<close>

definition rename_column :: "string \<Rightarrow> string \<Rightarrow> 'i frame \<Rightarrow> 'i frame" where
  "rename_column old new f = f\<lparr>columns := map (\<lambda>c. if c = old then new else c) (columns f)\<rparr>"

text \<open>
  \<open>dados.rename(columns={old: None})\<close>: the column gets the label \<open>None\<close>, which no
  symbol equals, so for every later lookup by name the column is gone.
\<close>

definition unname_column :: "string \<Rightarrow> 'i frame \<Rightarrow> 'i frame" where
  "unname_column old f =
     \<lparr>columns = filter (\<lambda>c. c \<noteq> old) (columns f),
      rows = map (\<lambda>(d, r). (d, map snd (filter (\<lambda>(c, v). c \<noteq> old) (zip (columns f) r)))) (rows f)\<rparr>"

text \<open>
  \<open>dados.index.min().to_pydatetime()\<close> and the same with \<open>max\<close>. An index without
  entries has no minimum: pandas answers NaN (NaT on a datetime index), which is not a
  timestamp the widgets can take, and the model fails there.
\<close>

definition index_min :: "date frame \<Rightarrow> py_error + date" where
  "index_min f = (case index f of [] \<Rightarrow> Inl AttributeError | d # ds \<Rightarrow> Inr (fold min ds d))"

definition index_max :: "date frame \<Rightarrow> py_error + date" where
  "index_max f = (case index f of [] \<Rightarrow> Inl AttributeError | d # ds \<Rightarrow> Inr (fold max ds d))"

text \<open>
  \<open>dados.loc[a:b]\<close> on an ascending datetime index: the rows dated from \<open>a\<close> to
  \<open>b\<close>, both included.
\<close>

definition loc_range :: "date \<Rightarrow> date \<Rightarrow> date frame \<Rightarrow> date frame" where
  "loc_range a b f = f\<lparr>rows := filter (\<lambda>(d, r). a \<le> d \<and> d \<le> b) (rows f)\<rparr>"

text \<open>
  \<open>configurar_sidebar\<close>. The widgets belong to the framework: \<open>lista_acoes\<close> is what
  the user chose in the multiselect (which offers the columns of \<open>dados\<close>), and
  \<open>slider\<close> answers the minimum and maximum dates with the chosen interval.
\<close>

definition configurar_sidebar ::
  "date frame \<Rightarrow> string list \<Rightarrow> (date \<Rightarrow> date \<Rightarrow> date \<times> date)
     \<Rightarrow> (date frame \<times> string list \<times> string option) io" where
  "configurar_sidebar dados lista_acoes slider =
     ([St_sidebar_header ''Filtros''],
      case (if lista_acoes = [] then Inr (dados, None)
            else (case select_columns dados lista_acoes of
                    Inl e \<Rightarrow> Inl e
                  | Inr dados_filtrados \<Rightarrow>
                      if length lista_acoes = 1
                      then Inr (rename_column (lista_acoes ! 0) ''Close'' dados_filtrados,
                                Some (lista_acoes ! 0))
                      else Inr (dados_filtrados, None)))
      of Inl e \<Rightarrow> Inl e
       | Inr (dados_filtrados, acao_unica) \<Rightarrow>
           (case index_min dados_filtrados of
              Inl e \<Rightarrow> Inl e
            | Inr data_inicial \<Rightarrow>
                (case index_max dados_filtrados of
                   Inl e \<Rightarrow> Inl e
                 | Inr data_final \<Rightarrow>
                     (let intervalo_data = slider data_inicial data_final
                      in Inr (loc_range (fst intervalo_data) (snd intervalo_data) dados_filtrados,
                              lista_acoes, acao_unica)))))"

text \<open>
  The format \<open>.2%\<close> of Python: the value times 100 with two decimals, rounded half to
  even, a minus sign for a negative value and no sign otherwise, then the percent sign.
\<close>

definition digit :: "nat \<Rightarrow> char" where
  "digit d = ''0123456789'' ! d"

function digits :: "nat \<Rightarrow> string" where
  "digits n = (if n < 10 then [digit n] else digits (n div 10) @ [digit (n mod 10)])"
  by pat_completeness auto
termination
  by (relation "measure id") auto

declare digits.simps [simp del]

definition round_half_even :: "rat \<Rightarrow> int" where
  "round_half_even q =
     (let n = \<lfloor>q\<rfloor>; fr = q - of_int n
      in if 1 / 2 < fr \<or> (fr = 1 / 2 \<and> odd n) then n + 1 else n)"

fun format_pct2 :: "cell \<Rightarrow> string" where
  "format_pct2 (Num r) =
     (let n = nat (round_half_even (\<bar>r\<bar> * 10000))
      in (if r < 0 then ''-'' else []) @ digits (n div 100) @ ''.''
           @ [digit (n mod 100 div 10), digit (n mod 10)] @ ''%'')"
| "format_pct2 PInf = ''inf%''"
| "format_pct2 NInf = ''-inf%''"
| "format_pct2 NaN = ''nan%''"

definition newline :: string where
  "newline = [CHR 0x0A]"

definition txt_computed :: "string \<Rightarrow> string \<Rightarrow> cell \<Rightarrow> string" where
  "txt_computed acao cor performance =
     ''**'' @ acao @ ''**: :'' @ cor @ ''['' @ format_pct2 performance @ '']  '' @ newline"

definition txt_zero :: "string \<Rightarrow> string" where
  "txt_zero acao =
     ''**'' @ acao @ ''**: N'' @ a_tilde @ ''o foi poss'' @ i_acute
       @ ''vel calcular (valor inicial '' @ e_acute @ '' zero).  '' @ newline"

definition txt_insuficiente :: "string \<Rightarrow> string" where
  "txt_insuficiente acao =
     ''**'' @ acao @ ''**: Dados insuficientes para c'' @ a_acute @ ''lculo no per''
       @ i_acute @ ''odo.  '' @ newline"

definition msg_nenhuma_acao :: string where
  "msg_nenhuma_acao =
     ''Nenhuma a'' @ c_cedil @ a_tilde @ ''o selecionada para calcular a performance.''"

text \<open>\<open>serie.dropna()\<close>\<close>

definition dropna :: "cell list \<Rightarrow> cell list" where
  "dropna serie = filter notna serie"

text \<open>
  The body of the loop of \<open>calcular_performance\<close> for one symbol, from the series
  already without NaN: the text it appends.
\<close>

definition linha_performance :: "string \<Rightarrow> cell list \<Rightarrow> string" where
  "linha_performance acao serie_acao_sem_nan =
     (if 1 < length serie_acao_sem_nan
      then (let valor_inicial = hd serie_acao_sem_nan;
                valor_final = last serie_acao_sem_nan
            in if valor_inicial \<noteq> Num 0
               then (let performance = fsub (fdiv valor_final valor_inicial) (Num 1);
                         cor = (if gt0 performance then ''green''
                                else if lt0 performance then ''red'' else ''gray'')
                     in txt_computed acao cor performance)
               else txt_zero acao)
      else txt_insuficiente acao)"

fun performance_loop :: "date frame \<Rightarrow> string list \<Rightarrow> string \<Rightarrow> py_error + string" where
  "performance_loop dados [] texto_performance = Inr texto_performance"
| "performance_loop dados (acao # lista_acoes) texto_performance =
     (case column_of dados acao of
        Inl e \<Rightarrow> Inl e
      | Inr serie \<Rightarrow>
          performance_loop dados lista_acoes
            (texto_performance @ linha_performance acao (dropna serie)))"

text \<open>The first statement of \<open>calcular_performance\<close>: the column Close gets its symbol back.\<close>

definition renomear_unica :: "string list \<Rightarrow> string option \<Rightarrow> date frame \<Rightarrow> date frame" where
  "renomear_unica lista_acoes acao_unica dados =
     (if length lista_acoes = 1
      then (case acao_unica of
              Some a \<Rightarrow> rename_column ''Close'' a dados
            | None \<Rightarrow> unname_column ''Close'' dados)
      else dados)"

definition calcular_performance ::
  "date frame \<Rightarrow> string list \<Rightarrow> string option \<Rightarrow> py_error + string" where
  "calcular_performance dados lista_acoes acao_unica =
     (let dados1 = renomear_unica lista_acoes acao_unica dados
      in if lista_acoes = [] then Inr msg_nenhuma_acao
         else performance_loop dados1 lista_acoes [])"

definition msg_sem_dados_periodo :: string where
  "msg_sem_dados_periodo =
     ''N'' @ a_tilde @ ''o foram encontrados dados para os tickers e per'' @ i_acute
       @ ''odo selecionados.''"

definition plotar_grafico :: "date frame \<Rightarrow> event list" where
  "plotar_grafico dados =
     (if empty_df dados then [St_warning msg_sem_dados_periodo] else [St_line_chart dados])"

definition titulo_page1 :: string where
  "titulo_page1 =
     ''Evolu'' @ c_cedil @ a_tilde @ ''o e Performance das A'' @ c_cedil @ o_tilde @ ''es''"

definition sub_evolucao :: string where
  "sub_evolucao =
     ''Evolu'' @ c_cedil @ a_tilde @ ''o dos Pre'' @ c_cedil @ ''os das A'' @ c_cedil
       @ o_tilde @ ''es''"

definition sub_performance :: string where
  "sub_performance = ''Performance dos Ativos no Per'' @ i_acute @ ''odo''"

definition msg_selecione_acao :: string where
  "msg_selecione_acao =
     ''Por favor, selecione ao menos uma a'' @ c_cedil @ a_tilde
       @ ''o na barra lateral para visualizar os dados.''"

text \<open>
  \<open>main\<close> of page_1, one render pass: the file as \<open>pd.read_csv\<close> finds it, the
  provider, and the user's choices in the two widgets.
\<close>

definition main_page1 ::
  "(string \<times> string list) list option \<Rightarrow> (string list \<Rightarrow> py_error + response)
     \<Rightarrow> string list \<Rightarrow> (date \<Rightarrow> date \<Rightarrow> date \<times> date) \<Rightarrow> unit io" where
  "main_page1 arquivo yf_download escolha slider =
     bind_io ([St_title titulo_page1], Inr ()) (\<lambda>_.
     bind_io (carregar_tickers_acoes arquivo) (\<lambda>tickers.
     bind_io (carregar_dados yf_download tickers) (\<lambda>dados_completos.
     bind_io (configurar_sidebar dados_completos escolha slider)
       (\<lambda>(dados_filtrados, lista_acoes, acao_unica).
          if lista_acoes = [] then ([St_info msg_selecione_acao], Inr ())
          else bind_io
                 ([St_subheader sub_evolucao] @ plotar_grafico dados_filtrados
                    @ [St_subheader sub_performance], Inr ())
                 (\<lambda>_. case calcular_performance dados_filtrados lista_acoes acao_unica of
                         Inl e \<Rightarrow> ([], Inl e)
                       | Inr texto_performance \<Rightarrow> ([St_markdown texto_performance], Inr ()))))))"

section \<open>page_2: monthly variation\<close>

definition leap_year :: "nat \<Rightarrow> bool" where
  "leap_year y = ((y mod 4 = 0 \<and> y mod 100 \<noteq> 0) \<or> y mod 400 = 0)"

definition days_in_month :: "nat \<Rightarrow> nat \<Rightarrow> nat" where
  "days_in_month y m =
     (if m = 2 then (if leap_year y then 29 else 28)
      else if m = 4 \<or> m = 6 \<or> m = 9 \<or> m = 11 then 30 else 31)"

text \<open>Months counted from year 0, and the last day of such a month.\<close>

definition month_no :: "date \<Rightarrow> nat" where
  "month_no d = (case d of (y, m, _) \<Rightarrow> y * 12 + (m - 1))"

definition month_end :: "nat \<Rightarrow> date" where
  "month_end k = (k div 12, k mod 12 + 1, days_in_month (k div 12) (k mod 12 + 1))"

text \<open>
  \<open>pd.to_datetime(dados.index)\<close>: a timestamp stays, a text is parsed. The parser is
  pandas' own and a parameter here; a text it cannot read raises.
\<close>

fun to_datetime :: "(string \<Rightarrow> date option) \<Rightarrow> label list \<Rightarrow> py_error + date list" where
  "to_datetime parse [] = Inr []"
| "to_datetime parse (l # ls) =
     (case (case l of Timestamp d \<Rightarrow> Some d | Text s \<Rightarrow> parse s) of
        None \<Rightarrow> Inl DateParseError
      | Some d \<Rightarrow> (case to_datetime parse ls of Inl e \<Rightarrow> Inl e | Inr ds \<Rightarrow> Inr (d # ds)))"

text \<open>
  \<open>.last()\<close> of one group of rows: for every column the last value that is not NaN,
  NaN when there is none.
\<close>

definition last_valid_row :: "nat \<Rightarrow> cell list list \<Rightarrow> cell list" where
  "last_valid_row n grupo =
     foldl (\<lambda>acc r. map2 (\<lambda>a c. if notna c then c else a) acc r) (replicate n NaN) grupo"

text \<open>
  \<open>dados.resample('ME').last()\<close>: the rows in date order, one bin for every calendar
  month from the month of the first date to the month of the last, each labelled with
  its last day.
\<close>

definition resample_ME_last :: "date frame \<Rightarrow> date frame" where
  "resample_ME_last f =
     (let ordenado = sort_key fst (rows f)
      in \<lparr>columns = columns f,
          rows = (if ordenado = [] then []
                  else map (\<lambda>k. (month_end k,
                                  last_valid_row (length (columns f))
                                    (map snd (filter (\<lambda>(d, r). month_no d = k) ordenado))))
                         [month_no (fst (hd ordenado)) ..< Suc (month_no (fst (last ordenado)))])\<rparr>)"

text \<open>
  \<open>df.pct_change(fill_method=None)\<close>: every row divided by the row before it, minus
  one; before the first row there is a row of NaN.
\<close>

definition pct :: "cell \<Rightarrow> cell \<Rightarrow> cell" where
  "pct anterior atual = fsub (fdiv atual anterior) (Num 1)"

definition pct_change :: "'i frame \<Rightarrow> 'i frame" where
  "pct_change f =
     f\<lparr>rows := map2 (\<lambda>anterior (d, r). (d, map2 pct anterior r))
                  (replicate (length (columns f)) NaN # map snd (rows f)) (rows f)\<rparr>"

text \<open>
  \<open>calcular_variacao_mensal\<close>. The first statement assigns the converted index to the
  argument itself, so the caller's table is changed by the call: the function returns
  the table as the call leaves it together with the monthly variation.
\<close>

definition calcular_variacao_mensal ::
  "(string \<Rightarrow> date option) \<Rightarrow> label frame \<Rightarrow> py_error + (label frame \<times> date frame)" where
  "calcular_variacao_mensal parse dados =
     (case to_datetime parse (index dados) of
        Inl e \<Rightarrow> Inl e
      | Inr datas \<Rightarrow>
          (let dados' = \<lparr>columns = columns dados,
                         rows = zip (map Timestamp datas) (map snd (rows dados))\<rparr>;
               df_mensal = resample_ME_last
                             \<lparr>columns = columns dados, rows = zip datas (map snd (rows dados))\<rparr>;
               variacao_mensal = pct_change df_mensal
           in Inr (dados', variacao_mensal)))"

definition lbl_estavel :: string where
  "lbl_estavel = ''Est'' @ a_acute @ ''vel''"

definition compare_df :: "(cell \<Rightarrow> bool) \<Rightarrow> 'i frame \<Rightarrow> bool list list" where
  "compare_df p f = map (\<lambda>(d, r). map p r) (rows f)"

definition mask_or :: "bool list list \<Rightarrow> bool list list \<Rightarrow> bool list list" where
  "mask_or m1 m2 = map2 (map2 (\<or>)) m1 m2"

definition where_mask :: "'i frame \<Rightarrow> bool list list \<Rightarrow> 'i frame" where
  "where_mask f m =
     f\<lparr>rows := map2 (\<lambda>(d, r) mr. (d, map2 (\<lambda>c b. if b then c else NaN) r mr)) (rows f) m\<rparr>"

text \<open>\<open>df.dropna(how='all')\<close>: a row stays when one of its cells is not NaN.\<close>

definition dropna_all :: "'i frame \<Rightarrow> 'i frame" where
  "dropna_all f = f\<lparr>rows := filter (\<lambda>(d, r). list_ex notna r) (rows f)\<rparr>"

text \<open>
  The end of \<open>configurar_filtros\<close>: the three checkboxes, the mask and the final
  \<open>dropna\<close>.
\<close>

definition filtro_variacao :: "bool \<Rightarrow> bool \<Rightarrow> bool \<Rightarrow> date frame \<Rightarrow> date frame" where
  "filtro_variacao alta baixa estavel dados_filtrados =
     (let filtros_variacao = (if alta then [''Alta''] else [])
                               @ (if baixa then [''Baixa''] else [])
                               @ (if estavel then [lbl_estavel] else []);
          dados1 =
            (if filtros_variacao \<noteq> []
             then (let mascara0 = compare_df (\<lambda>c. False) dados_filtrados;
                       mascara1 = (if ''Alta'' \<in> set filtros_variacao
                                   then mask_or mascara0 (compare_df gt0 dados_filtrados)
                                   else mascara0);
                       mascara2 = (if ''Baixa'' \<in> set filtros_variacao
                                   then mask_or mascara1 (compare_df lt0 dados_filtrados)
                                   else mascara1);
                       mascara3 = (if lbl_estavel \<in> set filtros_variacao
                                   then mask_or mascara2 (compare_df eq0 dados_filtrados)
                                   else mascara2)
                   in where_mask dados_filtrados mascara3)
             else dados_filtrados)
      in dropna_all dados1)"

definition hdr_filtros_acoes :: string where
  "hdr_filtros_acoes = ''Filtros de A'' @ c_cedil @ o_tilde @ ''es''"

definition msg_data_posterior :: string where
  "msg_data_posterior =
     ''A data inicial n'' @ a_tilde @ ''o pode ser posterior '' @ a_grave @ '' data final''"

definition msg_intervalo_valido :: string where
  "msg_intervalo_valido =
     ''Por favor, selecione um intervalo de datas v'' @ a_acute @ ''lido''"

text \<open>
  \<open>configurar_filtros\<close>. The user's choices are arguments: the symbols of the
  multiselect, the values of the two date inputs (\<open>None\<close> for an input left without a
  date) and the three checkboxes. The default dates the function computes only feed the
  widgets and are left out.
\<close>

definition configurar_filtros ::
  "date frame \<Rightarrow> string list \<Rightarrow> date option \<Rightarrow> date option \<Rightarrow> bool \<Rightarrow> bool \<Rightarrow> bool
     \<Rightarrow> date frame io" where
  "configurar_filtros dados_variacao escolha data_inicial data_final alta baixa estavel =
     (let acoes_selecionadas = (if escolha = [] then columns dados_variacao else escolha)
      in case select_columns dados_variacao acoes_selecionadas of
           Inl e \<Rightarrow> ([St_sidebar_header hdr_filtros_acoes], Inl e)
         | Inr dados_filtrados \<Rightarrow>
             bind_io ([St_sidebar_header hdr_filtros_acoes, St_subheader ''Filtros Adicionais''],
                      index_min dados_filtrados) (\<lambda>data_minima.
             bind_io ([], index_max dados_filtrados) (\<lambda>data_maxima.
               case (data_inicial, data_final) of
                 (Some di, Some df) \<Rightarrow>
                   if df < di then ([St_error msg_data_posterior], Inr DataFrame)
                   else ([], Inr (filtro_variacao alta baixa estavel
                                    (loc_range di df dados_filtrados)))
               | _ \<Rightarrow> ([St_warning msg_intervalo_valido], Inr DataFrame))))"

text \<open>\<open>exibir_dashboard\<close>: the chart takes the values times 100 under labels year-month.\<close>

fun times100 :: "cell \<Rightarrow> cell" where
  "times100 (Num a) = Num (a * 100)"
| "times100 c = c"

definition two_digits :: "nat \<Rightarrow> string" where
  "two_digits n = [digit (n mod 100 div 10), digit (n mod 10)]"

definition strftime_Y_m :: "date \<Rightarrow> string" where
  "strftime_Y_m d =
     (case d of (y, m, _) \<Rightarrow>
        replicate (4 - length (digits y)) (CHR ''0'') @ digits y @ ''-'' @ two_digits m)"

definition hdr_variacao :: string where
  "hdr_variacao =
     ''Varia'' @ c_cedil @ a_tilde @ ''o Mensal das A'' @ c_cedil @ o_tilde @ ''es (%)''"

definition exibir_dashboard :: "date frame \<Rightarrow> event list" where
  "exibir_dashboard dados_filtrados =
     (if empty_df dados_filtrados
      then [St_header hdr_variacao,
            St_warning ''Nenhum dado encontrado para os filtros selecionados'']
      else [St_header hdr_variacao,
            St_bar_chart \<lparr>columns = columns dados_filtrados,
                          rows = map (\<lambda>(d, r). (strftime_Y_m d, map times100 r))
                                   (rows dados_filtrados)\<rparr>,
            St_write ''---'',
            St_subheader ''Dados Filtrados'',
            St_dataframe dados_filtrados])"

definition msg_nao_carregou :: string where
  "msg_nao_carregou =
     ''N'' @ a_tilde @ ''o foi poss'' @ i_acute @ ''vel carregar os dados das a'' @ c_cedil
       @ o_tilde @ ''es''"

definition as_labels :: "date frame \<Rightarrow> label frame" where
  "as_labels f = \<lparr>columns = columns f, rows = map (\<lambda>(d, r). (Timestamp d, r)) (rows f)\<rparr>"

text \<open>\<open>main\<close> of page_2, one render pass.\<close>

definition main_page2 ::
  "(string \<times> string list) list option \<Rightarrow> (string list \<Rightarrow> py_error + response)
     \<Rightarrow> (string \<Rightarrow> date option) \<Rightarrow> string list \<Rightarrow> date option \<Rightarrow> date option
     \<Rightarrow> bool \<Rightarrow> bool \<Rightarrow> bool \<Rightarrow> unit io" where
  "main_page2 arquivo yf_download parse escolha data_inicial data_final alta baixa estavel =
     bind_io (carregar_tickers_acoes arquivo) (\<lambda>tickers.
       if tickers = [] then ([], Inr ())
       else bind_io (carregar_dados yf_download tickers) (\<lambda>dados_diarios.
         if empty_df dados_diarios then ([St_error msg_nao_carregou], Inr ())
         else (case calcular_variacao_mensal parse (as_labels dados_diarios) of
                 Inl e \<Rightarrow> ([], Inl e)
               | Inr (dados_diarios', variacao_mensal) \<Rightarrow>
                   bind_io (configurar_filtros variacao_mensal escolha data_inicial data_final
                              alta baixa estavel) (\<lambda>dados_finais_filtrados.
                     if \<not> empty_df dados_finais_filtrados
                     then (exibir_dashboard dados_finais_filtrados, Inr ())
                     else ([], Inr ())))))"

text \<open>A parser of dates written \<open>YYYY-MM-DD\<close>, one of the forms \<open>pd.to_datetime\<close> reads.\<close>

definition number :: "string \<Rightarrow> nat option" where
  "number s =
     (if s \<noteq> [] \<and> set s \<subseteq> set ''0123456789''
      then Some (foldl (\<lambda>n c. 10 * n + the (position c ''0123456789'')) 0 s)
      else None)"

definition parse_iso :: "string \<Rightarrow> date option" where
  "parse_iso s =
     (if length s = 10 \<and> s ! 4 = CHR ''-'' \<and> s ! 7 = CHR ''-''
      then (case (number (take 4 s), number (take 2 (drop 5 s)), number (drop 8 s)) of
              (Some y, Some m, Some d) \<Rightarrow>
                if 1 \<le> m \<and> m \<le> 12 \<and> 1 \<le> d \<and> d \<le> days_in_month y m then Some (y, m, d)
                else None
            | _ \<Rightarrow> None)
      else None)"

section \<open>The monthly value in the words of the specification\<close>




text \<open>The direction filter in the words of the specification: what a cell becomes.\<close>

definition spec_direction :: "bool \<Rightarrow> bool \<Rightarrow> bool \<Rightarrow> cell \<Rightarrow> cell" where
  "spec_direction alta baixa estavel c =
     (if \<not> (alta \<or> baixa \<or> estavel) then c
      else if (alta \<and> gt0 c) \<or> (baixa \<and> lt0 c) \<or> (estavel \<and> eq0 c) then c
      else NaN)"

section \<open>Example inputs\<close>

definition tabela_jan_fev :: "date frame" where
  "tabela_jan_fev =
     \<lparr>columns = [''PETR4.SA'', ''VALE3.SA''],
      rows = [((2024, 1, 30), [Num 98, Num 50]),
              ((2024, 1, 31), [Num 100, NaN]),
              ((2024, 2, 28), [Num 110, NaN]),
              ((2024, 2, 29), [NaN, NaN])]\<rparr>"




definition variacao_jan_fev :: "date frame" where
  "variacao_jan_fev =
     \<lparr>columns = [''PETR4.SA'', ''VALE3.SA''],
      rows = [((2024, 1, 31), [NaN, NaN]), ((2024, 2, 29), [Num (1 / 10), NaN])]\<rparr>"

definition variacao_jan_fev_filtrada :: "date frame" where
  "variacao_jan_fev_filtrada =
     \<lparr>columns = [''PETR4.SA'', ''VALE3.SA''],
      rows = [((2024, 2, 29), [Num (1 / 10), NaN])]\<rparr>"

definition tabela_variacao :: "date frame" where
  "tabela_variacao =
     \<lparr>columns = [''PETR4.SA''],
      rows = [((2024, 1, 31), [Num (1 / 100)]),
              ((2024, 2, 29), [Num (- 1 / 100)]),
              ((2024, 3, 31), [Num 0])]\<rparr>"



definition arquivo_exemplo :: "(string \<times> string list) list" where
  "arquivo_exemplo = [(''Nome'', [''Petrobras'', ''Vale'']), (col_Codigo, [''PETR4'', ''VALE3''])]"

definition resposta_exemplo :: response where
  "resposta_exemplo =
     \<lparr>r_index = [(2020, 1, 30), (2020, 1, 31)],
      r_tickers = [(''B.SA'', [(''Open'', [Num 1, Num 2]), (''Close'', [Num 100, NaN])]),
                   (''A.SA'', [(''Close'', [Num 5, Num 6])])]\<rparr>"

section \<open>The ticker loader and the price fetcher\<close>

text \<open>
  Claim C8. \<open>carregar_tickers_acoes\<close> with the file absent shows the error and the hint
  and returns the empty list, a value and not an exception. With the file present it
  returns as many symbols as the column Codigo (written with an acute o) has codes, the i-th symbol being
  the i-th code followed by \<open>.SA\<close>, and shows nothing.
\<close>

theorem load_symbols_result:
  "carregar_tickers_acoes None
     = ([St_error msg_arquivo_nao_encontrado, St_info msg_certifique_se], Inr [])
   \<and> (\<forall>base codes. map_of base col_Codigo = Some codes \<longrightarrow>
         (\<exists>symbols. carregar_tickers_acoes (Some base) = ([], Inr symbols)
            \<and> length symbols = length codes
            \<and> (\<forall>i < length codes. symbols ! i = codes ! i @ ''.SA'')))"
  by (simp add: carregar_tickers_acoes_def)

theorem load_symbols_result_witness:
  "map_of arquivo_exemplo col_Codigo = Some [''PETR4'', ''VALE3'']
   \<and> carregar_tickers_acoes (Some arquivo_exemplo) = ([], Inr [''PETR4.SA'', ''VALE3.SA''])"
proof -
  have m: "map_of arquivo_exemplo col_Codigo = Some [''PETR4'', ''VALE3'']"
    by code_simp
  from load_symbols_result[THEN conjunct2, rule_format, OF m] obtain symbols where
    s: "carregar_tickers_acoes (Some arquivo_exemplo) = ([], Inr symbols)"
       "length symbols = length [''PETR4'', ''VALE3'']"
       "\<forall>i < length [''PETR4'', ''VALE3'']. symbols ! i = [''PETR4'', ''VALE3''] ! i @ ''.SA''"
    by blast
  from s(3) have "symbols ! 0 = ''PETR4.SA''" "symbols ! 1 = ''VALE3.SA''" by simp_all
  moreover from s(2) obtain a b where "symbols = [a, b]"
    by (cases symbols; cases "tl symbols") auto
  ultimately have "symbols = [''PETR4.SA'', ''VALE3.SA'']" by simp
  with s(1) m show ?thesis by simp
qed

lemma position_None_iff: "position x xs = None \<longleftrightarrow> x \<notin> set xs"
  by (induction xs) auto

lemma columns_set_column:
  "columns (set_column f idx name serie) =
     (if name \<in> set (columns f) then columns f else columns f @ [name])"
proof (cases "position name (columns f)")
  case None
  then have "name \<notin> set (columns f)" by (simp add: position_None_iff)
  with None show ?thesis by (simp add: set_column_def Let_def)
next
  case (Some p)
  then have "name \<in> set (columns f)" using position_None_iff[of name "columns f"] by auto
  with Some show ?thesis by (simp add: set_column_def Let_def)
qed

lemma extrair_fechamento_columns:
  "extrair_fechamento r ts f = Inr g \<Longrightarrow>
   \<exists>ys. columns g = columns f @ ys \<and> subseq ys ts \<and> distinct ys
        \<and> set ys = (set ts \<inter> set (levels0 r)) - set (columns f)"
proof (induction ts arbitrary: f)
  case Nil
  then show ?case by simp
next
  case (Cons t ts)
  show ?case
  proof (cases "t \<in> set (levels0 r)")
    case False
    with Cons.prems have "extrair_fechamento r ts f = Inr g" by simp
    from Cons.IH[OF this] obtain ys where ys: "columns g = columns f @ ys" "subseq ys ts"
      "distinct ys" "set ys = (set ts \<inter> set (levels0 r)) - set (columns f)" by blast
    from ys(2) have "subseq ys (t # ts)" by (rule list_emb_Cons)
    with ys False show ?thesis by auto
  next
    case True
    with Cons.prems obtain s where s: "get_close r t = Inr s"
      and rec: "extrair_fechamento r ts (set_column f (r_index r) t s) = Inr g"
      by (auto split: sum.splits)
    from Cons.IH[OF rec] obtain ys where ys:
      "columns g = columns (set_column f (r_index r) t s) @ ys" "subseq ys ts" "distinct ys"
      "set ys = (set ts \<inter> set (levels0 r)) - set (columns (set_column f (r_index r) t s))"
      by blast
    show ?thesis
    proof (cases "t \<in> set (columns f)")
      case True
      with ys have "columns g = columns f @ ys" 
        "set ys = (set ts \<inter> set (levels0 r)) - set (columns f)"
        by (simp_all add: columns_set_column)
      moreover from ys(2) have "subseq ys (t # ts)" by (rule list_emb_Cons)
      ultimately show ?thesis using ys(3) True by auto
    next
      case False
      with ys have c: "columns g = columns f @ (t # ys)"
        and st: "set ys = (set ts \<inter> set (levels0 r)) - (set (columns f) \<union> {t})"
        by (simp_all add: columns_set_column)
      have "subseq (t # ys) (t # ts)" using ys(2) by simp
      moreover have "distinct (t # ys)" using ys(3) st by auto
      moreover have "set (t # ys) = (set (t # ts) \<inter> set (levels0 r)) - set (columns f)"
        using st True False by auto
      ultimately show ?thesis using c by blast
    qed
  qed
qed

lemma extrair_fechamento_returns:
  "has_close r \<Longrightarrow> \<exists>g. extrair_fechamento r ts f = Inr g"
proof (induction ts arbitrary: f)
  case Nil
  then show ?case by simp
next
  case (Cons t ts)
  show ?case
  proof (cases "t \<in> set (levels0 r)")
    case True
    with Cons.prems have "\<not> isl (get_close r t)" by (auto simp: has_close_def list_all_iff)
    then obtain s where "get_close r t = Inr s" by (cases "get_close r t") auto
    with True Cons.IH[OF Cons.prems] show ?thesis by simp
  next
    case False
    with Cons.IH[OF Cons.prems] show ?thesis by simp
  qed
qed

text \<open>
  Claim C7. When the provider answers, every table \<open>carregar_dados\<close> returns has as
  columns a subsequence of the symbols asked, without repetition, and exactly the asked
  symbols that are in the response: a symbol the provider left out is no column. The
  function does return a table when every symbol of the response has a Close field.
\<close>

theorem fetch_prices_columns:
  assumes "yf_download empresas = Inr r"
  shows "(has_close r \<longrightarrow> (\<exists>f. snd (carregar_dados yf_download empresas) = Inr f))
       \<and> (\<forall>f. snd (carregar_dados yf_download empresas) = Inr f \<longrightarrow>
             subseq (columns f) empresas \<and> distinct (columns f)
             \<and> set (columns f) = set empresas \<inter> set (levels0 r))"
proof -
  have eq: "snd (carregar_dados yf_download empresas) = extrair_fechamento r empresas DataFrame"
    using assms by (simp add: carregar_dados_def)
  have "\<exists>f. extrair_fechamento r empresas DataFrame = Inr f" if "has_close r"
    using extrair_fechamento_returns[OF that] by blast
  moreover have "subseq (columns f) empresas \<and> distinct (columns f)
             \<and> set (columns f) = set empresas \<inter> set (levels0 r)"
    if "extrair_fechamento r empresas DataFrame = Inr f" for f
    using extrair_fechamento_columns[OF that] by (auto simp: DataFrame_def)
  ultimately show ?thesis unfolding eq by blast
qed

theorem fetch_prices_columns_witness:
  "has_close resposta_exemplo
   \<and> snd (carregar_dados (\<lambda>_. Inr resposta_exemplo) [''A.SA'', ''X.SA'', ''B.SA'', ''A.SA''])
       = Inr \<lparr>columns = [''A.SA'', ''B.SA''],
              rows = [((2020, 1, 30), [Num 5, Num 100]), ((2020, 1, 31), [Num 6, NaN])]\<rparr>
   \<and> subseq [''A.SA'', ''B.SA''] [''A.SA'', ''X.SA'', ''B.SA'', ''A.SA'']
   \<and> set [''A.SA'', ''B.SA''] = set [''A.SA'', ''X.SA'', ''B.SA'', ''A.SA''] \<inter> set (levels0 resposta_exemplo)"
proof -
  let ?e = "[''A.SA'', ''X.SA'', ''B.SA'', ''A.SA'']"
  let ?F = "\<lparr>columns = [''A.SA'', ''B.SA''],
              rows = [((2020, 1, 30), [Num 5, Num 100]), ((2020, 1, 31), [Num 6, NaN])]\<rparr> :: date frame"
  have run: "snd (carregar_dados (\<lambda>_. Inr resposta_exemplo) ?e) = Inr ?F"
    by code_simp
  have hc: "has_close resposta_exemplo" by code_simp
  have dl: "(\<lambda>_. Inr resposta_exemplo) ?e = (Inr resposta_exemplo :: py_error + response)" by (rule refl)
  note th = fetch_prices_columns[OF dl, THEN conjunct2, rule_format, OF run]
  have c: "columns ?F = [''A.SA'', ''B.SA'']" by simp
  have "subseq (columns ?F) ?e" by (rule th[THEN conjunct1])
  moreover have "set (columns ?F) = set ?e \<inter> set (levels0 resposta_exemplo)"
    by (rule th[THEN conjunct2, THEN conjunct2])
  ultimately show ?thesis unfolding c using run hc by (intro conjI)
qed

section \<open>The performance report\<close>












section \<open>One symbol: the column Close and its name\<close>


lemma index_min_nonempty:
  assumes "rows f \<noteq> []"
  shows "\<exists>d. index_min f = Inr d"
proof (cases "rows f")
  case Nil
  with assms show ?thesis by simp
next
  case (Cons a list)
  then have "index_min f = Inr (fold min (map fst list) (fst a))"
    by (simp add: index_min_def index_def)
  then show ?thesis by (rule exI)
qed

lemma index_max_nonempty:
  assumes "rows f \<noteq> []"
  shows "\<exists>d. index_max f = Inr d"
proof (cases "rows f")
  case Nil
  with assms show ?thesis by simp
next
  case (Cons a list)
  then have "index_max f = Inr (fold max (map fst list) (fst a))"
    by (simp add: index_max_def index_def)
  then show ?thesis by (rule exI)
qed



section \<open>The filters of page_2\<close>

lemma map2_same:
  "map2 h (map f xs) (map g xs) = map (\<lambda>x. h (f x) (g x)) xs"
  by (induction xs) simp_all

lemma map2_right_same:
  "map2 h xs (map g xs) = map (\<lambda>x. h x (g x)) xs"
  by (induction xs) simp_all

lemma mask_or_compare:
  "mask_or (compare_df p t) (compare_df q t) = compare_df (\<lambda>c. p c \<or> q c) t"
  by (simp add: mask_or_def compare_df_def map2_same case_prod_beta)

lemma where_mask_compare:
  "where_mask t (compare_df p t)
     = t\<lparr>rows := map (\<lambda>(d, r). (d, map (\<lambda>c. if p c then c else NaN) r)) (rows t)\<rparr>"
  by (simp add: where_mask_def compare_df_def map2_right_same case_prod_beta)

lemma filtro_variacao_masked:
  "filtro_variacao alta baixa estavel t
     = dropna_all (t\<lparr>rows := map (\<lambda>(d, r). (d, map (spec_direction alta baixa estavel) r)) (rows t)\<rparr>)"
proof -
  have e: "lbl_estavel \<noteq> ''Alta''" "lbl_estavel \<noteq> ''Baixa''"
    by (simp_all add: lbl_estavel_def a_acute_def)
  have id: "t\<lparr>rows := map (\<lambda>(d, r). (d, map (\<lambda>c. c) r)) (rows t)\<rparr> = t"
    by (simp add: case_prod_beta)
  show ?thesis
    by (cases alta; cases baixa; cases estavel)
       (simp_all add: filtro_variacao_def Let_def e e[symmetric] mask_or_compare
          where_mask_compare spec_direction_def[abs_def] id)
qed

text \<open>
  Claim C3. The direction filter of \<open>configurar_filtros\<close> keeps the columns, turns every
  cell into what the specification says and then drops the rows in which every cell is
  missing: with no checkbox ticked a cell stays as it is; with one or more ticked a cell
  stays when it satisfies one of the ticked predicates (above zero for Alta, below zero for
  Baixa, equal to zero for Estavel) and becomes NaN otherwise.
\<close>

theorem direction_filter:
  "columns (filtro_variacao alta baixa estavel t) = columns t
   \<and> rows (filtro_variacao alta baixa estavel t)
       = filter (\<lambda>(d, r). \<exists>c \<in> set r. c \<noteq> NaN)
           (map (\<lambda>(d, r). (d, map (spec_direction alta baixa estavel) r)) (rows t))
   \<and> (\<forall>c. spec_direction False False False c = c)
   \<and> (\<forall>c. (alta \<or> baixa \<or> estavel) \<longrightarrow>
          spec_direction alta baixa estavel c
            = (if (alta \<and> gt0 c) \<or> (baixa \<and> lt0 c) \<or> (estavel \<and> eq0 c) then c else NaN))"
  by (simp add: filtro_variacao_masked dropna_all_def list_ex_iff notna_def spec_direction_def)

theorem direction_filter_witness:
  "rows (filtro_variacao True False False tabela_variacao) = [((2024, 1, 31), [Num (1 / 100)])]
   \<and> rows (filtro_variacao False False False tabela_variacao) = rows tabela_variacao
   \<and> snd (configurar_filtros tabela_variacao [] (Some (2024, 1, 1)) (Some (2024, 12, 31))
            True False False)
       = Inr \<lparr>columns = [''PETR4.SA''], rows = [((2024, 1, 31), [Num (1 / 100)])]\<rparr>"
proof -
  have 1: "rows (filtro_variacao True False False tabela_variacao) = [((2024, 1, 31), [Num (1 / 100)])]"
    using direction_filter[of True False False tabela_variacao, THEN conjunct2, THEN conjunct1]
    by (simp add: tabela_variacao_def spec_direction_def)
  have 2: "rows (filtro_variacao False False False tabela_variacao) = rows tabela_variacao"
    using direction_filter[of False False False tabela_variacao, THEN conjunct2, THEN conjunct1]
    by (simp add: tabela_variacao_def spec_direction_def)
  have sc: "select_columns tabela_variacao (columns tabela_variacao) = Inr tabela_variacao"
    by (simp add: tabela_variacao_def select_columns_def cell_of_def)
  have c: "columns tabela_variacao = [''PETR4.SA'']" by (simp add: tabela_variacao_def)
  have r: "rows tabela_variacao \<noteq> []" by (simp add: tabela_variacao_def)
  from index_min_nonempty[OF r] obtain a where a: "index_min tabela_variacao = Inr a" by blast
  from index_max_nonempty[OF r] obtain b where b: "index_max tabela_variacao = Inr b" by blast
  have lr: "loc_range (2024, 1, 1) (2024, 12, 31) tabela_variacao = tabela_variacao"
    by (simp add: tabela_variacao_def loc_range_def)
  have 3: "snd (configurar_filtros tabela_variacao [] (Some (2024, 1, 1)) (Some (2024, 12, 31))
            True False False) = Inr (filtro_variacao True False False tabela_variacao)"
    using sc a b lr by (simp add: configurar_filtros_def bind_io_def Let_def)
  have 4: "filtro_variacao True False False tabela_variacao
           = \<lparr>columns = [''PETR4.SA''], rows = [((2024, 1, 31), [Num (1 / 100)])]\<rparr>"
    using 1 direction_filter[of True False False tabela_variacao, THEN conjunct1] c
    by (cases "filtro_variacao True False False tabela_variacao") simp
  from 1 2 3[unfolded 4] show ?thesis by (intro conjI)
qed

text \<open>
  Claim C4. When the chosen symbols are columns of the table, the table has a row and the
  final date is before the initial date, \<open>configurar_filtros\<close> shows the validation error
  and returns the empty table as a value: it does not raise.
\<close>

theorem inverted_dates_rejected:
  assumes "set escolha \<subseteq> set (columns t)" and "rows t \<noteq> []" and "data_final < data_inicial"
  shows "configurar_filtros t escolha (Some data_inicial) (Some data_final) alta baixa estavel
           = ([St_sidebar_header hdr_filtros_acoes, St_subheader ''Filtros Adicionais'',
               St_error msg_data_posterior], Inr DataFrame)"
proof -
  define nomes where "nomes = (if escolha = [] then columns t else escolha)"
  define sel :: "date frame" where "sel = \<lparr>columns = nomes,
      rows = map (\<lambda>(d, r). (d, map (cell_of (columns t) r) nomes)) (rows t)\<rparr>"
  have "set nomes \<subseteq> set (columns t)" using assms(1) by (simp add: nomes_def)
  then have sc: "select_columns t nomes = Inr sel" by (simp add: select_columns_def sel_def)
  have rn: "rows sel \<noteq> []" using assms(2) by (simp add: sel_def)
  from index_min_nonempty[OF rn] obtain a where a: "index_min sel = Inr a" by blast
  from index_max_nonempty[OF rn] obtain b where b: "index_max sel = Inr b" by blast
  show ?thesis
    using sc a b assms(3)
    by (simp add: configurar_filtros_def nomes_def[symmetric] bind_io_def Let_def)
qed

theorem inverted_dates_rejected_witness:
  "set [''PETR4.SA''] \<subseteq> set (columns tabela_variacao) \<and> rows tabela_variacao \<noteq> []
   \<and> ((2024, 2, 29) :: date) < (2024, 3, 31)
   \<and> configurar_filtros tabela_variacao [''PETR4.SA''] (Some (2024, 3, 31)) (Some (2024, 2, 29))
        True False True
       = ([St_sidebar_header hdr_filtros_acoes, St_subheader ''Filtros Adicionais'',
           St_error msg_data_posterior], Inr \<lparr>columns = [], rows = []\<rparr>)"
proof -
  have h1: "set [''PETR4.SA''] \<subseteq> set (columns tabela_variacao)" by (simp add: tabela_variacao_def)
  have h2: "rows tabela_variacao \<noteq> []" by (simp add: tabela_variacao_def)
  have h3: "((2024, 2, 29) :: date) < (2024, 3, 31)" by simp
  from inverted_dates_rejected[OF h1 h2 h3, of True False True] h1 h2 h3
  show ?thesis by (simp add: DataFrame_def)
qed

lemma dropna_all_rows: "\<forall>row \<in> set (rows (dropna_all f)). \<exists>c \<in> set (snd row). c \<noteq> NaN"
  by (auto simp: dropna_all_def list_ex_iff notna_def)

lemma configurar_filtros_result:
  assumes "snd (configurar_filtros t escolha di df alta baixa estavel) = Inr out"
  shows "out = DataFrame
       \<or> (\<exists>sel a b. select_columns t (if escolha = [] then columns t else escolha) = Inr sel
            \<and> di = Some a \<and> df = Some b
            \<and> out = filtro_variacao alta baixa estavel (loc_range a b sel))"
proof -
  define nomes where "nomes = (if escolha = [] then columns t else escolha)"
  from assms obtain sel where sc: "select_columns t nomes = Inr sel"
    by (cases "select_columns t nomes")
       (simp_all add: configurar_filtros_def nomes_def[symmetric] Let_def)
  from assms sc obtain mn where mn: "index_min sel = Inr mn"
    by (cases "index_min sel")
       (simp_all add: configurar_filtros_def nomes_def[symmetric] Let_def bind_io_def)
  from assms sc mn obtain mx where mx: "index_max sel = Inr mx"
    by (cases "index_max sel")
       (simp_all add: configurar_filtros_def nomes_def[symmetric] Let_def bind_io_def)
  show ?thesis
  proof (cases di)
    case None
    with assms sc mn mx have "out = DataFrame"
      by (simp add: configurar_filtros_def nomes_def[symmetric] Let_def bind_io_def)
    then show ?thesis by simp
  next
    case (Some a)
    show ?thesis
    proof (cases df)
      case None
      with assms sc mn mx Some have "out = DataFrame"
        by (simp add: configurar_filtros_def nomes_def[symmetric] Let_def bind_io_def)
      then show ?thesis by simp
    next
      case (Some b)
      show ?thesis
      proof (cases "b < a")
        case True
        with assms sc mn mx \<open>di = Some a\<close> Some have "out = DataFrame"
          by (simp add: configurar_filtros_def nomes_def[symmetric] Let_def bind_io_def)
        then show ?thesis by simp
      next
        case False
        with assms sc mn mx \<open>di = Some a\<close> Some
        have "out = filtro_variacao alta baixa estavel (loc_range a b sel)"
          by (simp add: configurar_filtros_def nomes_def[symmetric] Let_def bind_io_def)
        with sc \<open>di = Some a\<close> Some show ?thesis unfolding nomes_def by blast
      qed
    qed
  qed
qed

lemma configurar_filtros_no_missing_row:
  assumes "snd (configurar_filtros t escolha di df alta baixa estavel) = Inr out"
  shows "\<forall>row \<in> set (rows out). \<exists>c \<in> set (snd row). c \<noteq> NaN"
  using configurar_filtros_result[OF assms] dropna_all_rows
  by (auto simp: DataFrame_def filtro_variacao_masked)

section \<open>A missing ticker file\<close>

text \<open>
  Claim C5. With the ticker file missing, \<open>main\<close> of page_2 shows the loader's two
  messages and stops there, without a request to the provider. \<open>main\<close> of page_1 has no
  such check: whatever the provider and the user's choices, it sends the request for the
  empty list of symbols and the render pass ends with an exception.
\<close>

theorem missing_file_halts_only_page2:
  "(\<exists>ev e. main_page1 None yf_download escolha slider = (ev, Inl e) \<and> Download [] \<in> set ev)
   \<and> main_page2 None yf_download parse escolha data_inicial data_final alta baixa estavel
       = ([St_error msg_arquivo_nao_encontrado, St_info msg_certifique_se], Inr ())"
proof -
  have p2: "main_page2 None yf_download parse escolha data_inicial data_final alta baixa estavel
       = ([St_error msg_arquivo_nao_encontrado, St_info msg_certifique_se], Inr ())"
    by (simp add: main_page2_def carregar_tickers_acoes_def bind_io_def)
  have sb: "\<exists>e. snd (configurar_sidebar DataFrame escolha slider) = Inl e"
    by (cases "escolha = []")
       (auto simp: configurar_sidebar_def DataFrame_def index_min_def index_def
          select_columns_def)
  have ev: "fst (configurar_sidebar DataFrame escolha slider) = [St_sidebar_header ''Filtros'']"
    by (simp add: configurar_sidebar_def)
  have p1: "\<exists>ev e. main_page1 None yf_download escolha slider = (ev, Inl e) \<and> Download [] \<in> set ev"
  proof (cases "yf_download []")
    case (Inl e)
    then show ?thesis
      by (simp add: main_page1_def carregar_tickers_acoes_def carregar_dados_def bind_io_def)
  next
    case (Inr r)
    from sb obtain e where "snd (configurar_sidebar DataFrame escolha slider) = Inl e" by blast
    with ev have "configurar_sidebar DataFrame escolha slider = ([St_sidebar_header ''Filtros''], Inl e)"
      by (cases "configurar_sidebar DataFrame escolha slider") simp
    with Inr show ?thesis
      by (simp add: main_page1_def carregar_tickers_acoes_def carregar_dados_def bind_io_def)
  qed
  from p1 p2 show ?thesis by (intro conjI)
qed

section \<open>The monthly variation\<close>

lemma fdiv_NaN_right: "fdiv c NaN = NaN"
  by (cases c) simp_all

lemma pct_NaN: "pct NaN c = NaN"
  by (simp add: pct_def fdiv_NaN_right)

lemma map2_pct_NaN: "c \<in> set (map2 pct (replicate n NaN) r) \<Longrightarrow> c = NaN"
  by (auto simp: set_zip pct_NaN)

lemma map2_keeps_index:
  "length rs \<le> length ps \<Longrightarrow> map fst (map2 (\<lambda>p (d, r). (d, G p r)) ps rs) = map fst rs"
proof (induction rs arbitrary: ps)
  case Nil
  then show ?case by simp
next
  case (Cons r rs)
  then obtain p ps' where "ps = p # ps'" by (cases ps) auto
  with Cons show ?case by (simp add: case_prod_beta)
qed

lemma index_pct_change: "index (pct_change f) = index f"
proof -
  have "length (rows f) \<le> length (replicate (length (columns f)) NaN # map snd (rows f))"
    by simp
  from map2_keeps_index[OF this, of "map2 pct"] show ?thesis
    unfolding index_def pct_change_def by simp
qed


lemma hd_pct_change:
  "rows f = r0 # rs \<Longrightarrow>
   hd (rows (pct_change f)) = (fst r0, map2 pct (replicate (length (columns f)) NaN) (snd r0))"
  by (simp add: pct_change_def case_prod_beta)

lemma rows_pct_change_empty: "rows (pct_change f) = [] \<longleftrightarrow> rows f = []"
  by (cases "rows f") (simp_all add: pct_change_def)

lemma month_end_inj: "month_end k = month_end k' \<Longrightarrow> k = k'"
proof -
  assume "month_end k = month_end k'"
  then have "k div 12 = k' div 12" "k mod 12 = k' mod 12" by (simp_all add: month_end_def)
  then show ?thesis by (metis div_mult_mod_eq)
qed

lemma index_resample:
  "index (resample_ME_last f)
     = (if rows f = [] then []
        else map month_end [month_no (fst (hd (sort_key fst (rows f))))
                             ..< Suc (month_no (fst (last (sort_key fst (rows f)))))])"
proof -
  have "sort_key fst (rows f) = [] \<longleftrightarrow> rows f = []"
    by (metis length_sort length_0_conv)
  then show ?thesis
    by (simp add: index_def resample_ME_last_def Let_def comp_def)
qed

lemma distinct_index_resample: "distinct (index (resample_ME_last f))"
  by (auto simp: index_resample distinct_map inj_on_def dest: month_end_inj)


lemma to_datetime_timestamps: "to_datetime parse (map Timestamp ds) = Inr ds"
  by (induction ds) simp_all


lemma calcular_variacao_mensal_result:
  assumes "calcular_variacao_mensal parse t = Inr (t', v)"
  shows "\<exists>ds. to_datetime parse (index t) = Inr ds
           \<and> t' = \<lparr>columns = columns t, rows = zip (map Timestamp ds) (map snd (rows t))\<rparr>
           \<and> v = pct_change (resample_ME_last
                                \<lparr>columns = columns t, rows = zip ds (map snd (rows t))\<rparr>)"
  using assms by (auto simp: calcular_variacao_mensal_def Let_def split: sum.splits)


lemmas resample_eval = resample_ME_last_def Let_def month_no_def month_end_def days_in_month_def
  leap_year_def last_valid_row_def notna_def upt_rec




lemma select_columns_rows:
  "select_columns t nomes = Inr sel \<Longrightarrow>
   rows sel = map (\<lambda>(d, r). (d, map (cell_of (columns t) r) nomes)) (rows t)"
  by (auto simp: select_columns_def split: if_splits)

lemma cell_of_all_NaN:
  assumes "\<forall>c \<in> set r. c = NaN"
  shows "cell_of cols r name = NaN"
proof (cases "map_of (zip cols r) name")
  case None
  then show ?thesis by (simp add: cell_of_def)
next
  case (Some c)
  then have "c \<in> set r" by (meson map_of_SomeD set_zip_rightD)
  with assms Some show ?thesis by (simp add: cell_of_def)
qed

lemma spec_direction_NaN: "spec_direction alta baixa estavel NaN = NaN"
  by (simp add: spec_direction_def)

lemma configurar_filtros_rows_nonempty:
  assumes "snd (configurar_filtros t escolha di df alta baixa estavel) = Inr out"
  shows "rows t \<noteq> []"
proof
  assume e: "rows t = []"
  define nomes where "nomes = (if escolha = [] then columns t else escolha)"
  show False
  proof (cases "select_columns t nomes")
    case (Inl err)
    with assms show False by (simp add: configurar_filtros_def nomes_def[symmetric] Let_def)
  next
    case (Inr sel)
    from select_columns_rows[OF Inr] e have "index_min sel = Inl AttributeError"
      by (simp add: index_min_def index_def)
    with assms Inr show False
      by (simp add: configurar_filtros_def nomes_def[symmetric] Let_def bind_io_def)
  qed
qed

lemma first_row_dropped:
  assumes dist: "distinct (index t)"
    and r0: "rows t = r0 # rs"
    and nan: "\<forall>c \<in> set (snd r0). c = NaN"
    and run: "snd (configurar_filtros t escolha di df alta baixa estavel) = Inr out"
  shows "fst r0 \<notin> set (index out)"
proof
  assume "fst r0 \<in> set (index out)"
  then obtain r' where in_out: "(fst r0, r') \<in> set (rows out)" by (auto simp: index_def)
  then have "out \<noteq> DataFrame" by (auto simp: DataFrame_def)
  with configurar_filtros_result[OF run] obtain sel a b where
    sel: "select_columns t (if escolha = [] then columns t else escolha) = Inr sel"
    and out: "out = filtro_variacao alta baixa estavel (loc_range a b sel)" by blast
  from in_out have ex: "\<exists>c \<in> set r'. c \<noteq> NaN"
    using configurar_filtros_no_missing_row[OF run] by fastforce
  from in_out obtain r where r: "(fst r0, r) \<in> set (rows sel)"
    and r': "r' = map (spec_direction alta baixa estavel) r"
    by (auto simp: out filtro_variacao_masked dropna_all_def loc_range_def)
  from r obtain r1 where r1: "(fst r0, r1) \<in> set (rows t)"
    and rr: "r = map (cell_of (columns t) r1) (if escolha = [] then columns t else escolha)"
    unfolding select_columns_rows[OF sel] by auto
  have "(fst r0, snd r0) \<in> set (rows t)" by (simp add: r0)
  with r1 dist have "r1 = snd r0"
    unfolding index_def by (meson eq_key_imp_eq_value)
  with nan have "\<forall>c \<in> set r1. c = NaN" by simp
  then have "\<forall>c \<in> set r. c = NaN" by (simp add: rr cell_of_all_NaN)
  then have "\<forall>c \<in> set r'. c = NaN" by (auto simp: r' spec_direction_NaN)
  with ex show False by blast
qed

text \<open>
  Claim C10. Whatever the table, the choices and the checkboxes, a table returned by
  \<open>configurar_filtros\<close> has no row in which every cell is missing. When the table is a
  monthly variation made by \<open>calcular_variacao_mensal\<close>, it has a first row, all the cells
  of that row are missing, and the date of that row is not in the index of the table
  returned, with or without a checkbox ticked.
\<close>

theorem no_all_missing_row:
  "(snd (configurar_filtros t escolha di df alta baixa estavel) = Inr out \<longrightarrow>
      (\<forall>row \<in> set (rows out). \<exists>c \<in> set (snd row). c \<noteq> NaN))
   \<and> (calcular_variacao_mensal parse dados = Inr (dados', t)
        \<and> snd (configurar_filtros t escolha di df alta baixa estavel) = Inr out \<longrightarrow>
      rows t \<noteq> [] \<and> (\<forall>c \<in> set (snd (hd (rows t))). c = NaN)
      \<and> fst (hd (rows t)) \<notin> set (index out))"
proof -
  have b: "rows t \<noteq> [] \<and> (\<forall>c \<in> set (snd (hd (rows t))). c = NaN)
      \<and> fst (hd (rows t)) \<notin> set (index out)"
    if cv: "calcular_variacao_mensal parse dados = Inr (dados', t)"
      and run: "snd (configurar_filtros t escolha di df alta baixa estavel) = Inr out"
  proof -
    from calcular_variacao_mensal_result[OF cv] obtain m where t: "t = pct_change (resample_ME_last m)"
      by blast
    have ne: "rows t \<noteq> []" by (rule configurar_filtros_rows_nonempty[OF run])
    then obtain q0 qs where q: "rows (resample_ME_last m) = q0 # qs"
      unfolding t rows_pct_change_empty by (cases "rows (resample_ME_last m)") auto
    from hd_pct_change[OF q] have hd: "hd (rows t)
        = (fst q0, map2 pct (replicate (length (columns (resample_ME_last m))) NaN) (snd q0))"
      by (simp add: t)
    have nan: "\<forall>c \<in> set (snd (hd (rows t))). c = NaN"
      unfolding hd using map2_pct_NaN by auto
    have dist: "distinct (index t)"
      by (simp add: t index_pct_change distinct_index_resample)
    from ne obtain r0 rs where rt: "rows t = r0 # rs" by (cases "rows t") auto
    from first_row_dropped[OF dist rt _ run] nan rt
    have "fst (hd (rows t)) \<notin> set (index out)" by simp
    with ne nan show ?thesis by blast
  qed
  show ?thesis using configurar_filtros_no_missing_row b by blast
qed








lemma calcular_variacao_mensal_datetime:
  "calcular_variacao_mensal parse (as_labels f)
     = Inr (as_labels f, pct_change (resample_ME_last f))"
proof -
  have idx: "index (as_labels f) = map Timestamp (index f)"
    by (simp add: as_labels_def index_def comp_def case_prod_beta)
  have sn: "map snd (rows (as_labels f)) = map snd (rows f)"
    by (simp add: as_labels_def comp_def case_prod_beta)
  have z: "zip (map Timestamp (index f)) (map snd (rows f)) = rows (as_labels f)"
    by (simp add: as_labels_def index_def zip_map_map case_prod_beta zip_same_conv_map)
  have ca: "columns (as_labels f) = columns f" by (simp add: as_labels_def)
  have eq: "\<lparr>columns = columns f, rows = rows (as_labels f)\<rparr> = as_labels f"
    by (simp add: as_labels_def)
  have z2: "zip (index f) (map snd (rows f)) = rows f"
    by (simp add: index_def zip_map_fst_snd)
  have eq2: "\<lparr>columns = columns f, rows = rows f\<rparr> = f" by simp
  show ?thesis
    by (simp add: calcular_variacao_mensal_def idx to_datetime_timestamps sn z ca eq z2 eq2 Let_def)
qed




lemma jan_fev_eval: "pct_change (resample_ME_last tabela_jan_fev) = variacao_jan_fev"
  by (simp add: tabela_jan_fev_def variacao_jan_fev_def resample_eval pct_change_def pct_def
        del: One_nat_def)

lemma filtros_jan_fev:
  "snd (configurar_filtros variacao_jan_fev [] (Some (2024, 1, 1)) (Some (2024, 12, 31))
          False False False) = Inr variacao_jan_fev_filtrada"
proof -
  have sc: "select_columns variacao_jan_fev (columns variacao_jan_fev) = Inr variacao_jan_fev"
    by (simp add: variacao_jan_fev_def select_columns_def cell_of_def)
  have r: "rows variacao_jan_fev \<noteq> []" by (simp add: variacao_jan_fev_def)
  from index_min_nonempty[OF r] obtain a where a: "index_min variacao_jan_fev = Inr a" by blast
  from index_max_nonempty[OF r] obtain b where b: "index_max variacao_jan_fev = Inr b" by blast
  have lr: "loc_range (2024, 1, 1) (2024, 12, 31) variacao_jan_fev = variacao_jan_fev"
    by (simp add: variacao_jan_fev_def loc_range_def)
  have fv: "filtro_variacao False False False variacao_jan_fev = variacao_jan_fev_filtrada"
    by (simp add: filtro_variacao_def dropna_all_def notna_def variacao_jan_fev_def
          variacao_jan_fev_filtrada_def)
  show ?thesis
    using sc a b lr fv by (simp add: configurar_filtros_def bind_io_def Let_def)
qed


theorem no_all_missing_row_witness:
  "calcular_variacao_mensal parse_iso (as_labels tabela_jan_fev)
       = Inr (as_labels tabela_jan_fev, variacao_jan_fev)
   \<and> snd (configurar_filtros variacao_jan_fev [] (Some (2024, 1, 1)) (Some (2024, 12, 31))
            False False False) = Inr variacao_jan_fev_filtrada
   \<and> list_all (\<lambda>row. list_ex notna (snd row)) (rows variacao_jan_fev_filtrada)
   \<and> fst (hd (rows variacao_jan_fev)) = (2024, 1, 31)
   \<and> (2024, 1, 31) \<notin> set (index variacao_jan_fev_filtrada)"
proof -
  have cv: "calcular_variacao_mensal parse_iso (as_labels tabela_jan_fev)
       = Inr (as_labels tabela_jan_fev, variacao_jan_fev)"
    by (simp add: calcular_variacao_mensal_datetime jan_fev_eval)
  note th = no_all_missing_row[of variacao_jan_fev "[]" "Some (2024, 1, 1)" "Some (2024, 12, 31)"
      False False False variacao_jan_fev_filtrada parse_iso "as_labels tabela_jan_fev"
      "as_labels tabela_jan_fev"]
  from th[THEN conjunct1, rule_format, OF filtros_jan_fev]
  have a: "list_all (\<lambda>row. list_ex notna (snd row)) (rows variacao_jan_fev_filtrada)"
    by (simp add: list_all_iff list_ex_iff notna_def)
  from th[THEN conjunct2, rule_format, OF conjI[OF cv filtros_jan_fev]]
  have b: "fst (hd (rows variacao_jan_fev)) \<notin> set (index variacao_jan_fev_filtrada)" by blast
  have h: "fst (hd (rows variacao_jan_fev)) = (2024, 1, 31)" by (simp add: variacao_jan_fev_def)
  from cv filtros_jan_fev a h b[unfolded h] show ?thesis by (intro conjI)
qed

end
